theory Spec2Isabelle
  imports Main
begin

section \<open>Python values, exceptions and GLIR commands\<close>

text \<open>
  The fragment of Python values that reaches \<^verbatim>\<open>vispy/gloo/framebuffer.py\<close>: shapes are
  tuples (but nothing stops a caller from passing a list, a number or \<^verbatim>\<open>None\<close>), formats
  are \<^verbatim>\<open>None\<close>, integers (the GL enums) or strings, and buffers are references to
  objects. \<open>PyRef a\<close> is a reference to the object stored under \<open>a\<close>.
\<close>

datatype pyval =
    PyNone
  | PyBool bool
  | PyInt int
  | PyStr string
  | PyTuple "pyval list"
  | PyList "pyval list"
  | PyRef nat

text \<open>
  The exceptions the module raises, by Python class. The specification's error names
  are the raise sites: \<^verbatim>\<open>ImmutableResourceError\<close> and \<^verbatim>\<open>UndefinedShapeError\<close> are the
  \<^verbatim>\<open>RuntimeError\<close>s, \<^verbatim>\<open>InvalidShapeError\<close> and \<^verbatim>\<open>MissingFormatError\<close> the
  \<^verbatim>\<open>ValueError\<close>s, \<^verbatim>\<open>TypeMismatchError\<close> the \<^verbatim>\<open>TypeError\<close>. \<^verbatim>\<open>AttributeError\<close> is
  what the interpreter raises on reading an attribute that was never assigned, or any
  attribute of \<^verbatim>\<open>None\<close>.
\<close>

datatype exn = RuntimeError | ValueError | TypeError | AttributeError

text \<open>
  A GLIR command as \<^verbatim>\<open>self._context.glir.command(...)\<close> receives it:
  \<^verbatim>\<open>('CREATE', id, type)\<close>, \<^verbatim>\<open>('SIZE', id, shape, format)\<close>,
  \<^verbatim>\<open>('ATTACH', id, target, buffer_id)\<close>.
\<close>

datatype command =
    CREATE nat string
  | SIZE nat pyval pyval
  | ATTACH nat int nat

text \<open>
  The constants of the \<^verbatim>\<open>gl\<close> module that the file uses. The module is not part of the
  sources, so the constants are a parameter of every operation that reads them.
\<close>

record gl_module =
  GL_RGBA :: int
  GL_DEPTH_COMPONENT16 :: int
  GL_STENCIL_INDEX8 :: int
  GL_COLOR_ATTACHMENT0 :: int
  GL_DEPTH_ATTACHMENT :: int
  GL_STENCIL_ATTACHMENT :: int

text \<open>\<^verbatim>\<open>bool(x)\<close>; an object without \<^verbatim>\<open>__bool__\<close> and \<^verbatim>\<open>__len__\<close> is true.\<close>

fun py_bool :: "pyval \<Rightarrow> bool" where
  "py_bool PyNone = False"
| "py_bool (PyBool b) = b"
| "py_bool (PyInt i) = (i \<noteq> 0)"
| "py_bool (PyStr s) = (s \<noteq> [])"
| "py_bool (PyTuple xs) = (xs \<noteq> [])"
| "py_bool (PyList xs) = (xs \<noteq> [])"
| "py_bool (PyRef a) = True"

text \<open>\<^verbatim>\<open>isinstance(shape, tuple) and len(shape) in (2, 3)\<close>\<close>

fun shape_ok :: "pyval \<Rightarrow> bool" where
  "shape_ok (PyTuple xs) = (length xs = 2 \<or> length xs = 3)"
| "shape_ok _ = False"

section \<open>RenderBuffer\<close>

text \<open>
  The class of a render buffer object: \<^verbatim>\<open>RenderBuffer\<close> itself or one of its three
  (deprecated) subclasses.
\<close>

datatype buffer_class = RenderBuffer | ColorBuffer | DepthBuffer | StencilBuffer

text \<open>
  The attributes of a render buffer. \<^verbatim>\<open>_shape\<close> and \<^verbatim>\<open>_format\<close> are assigned only by
  \<^verbatim>\<open>resize\<close> (lines 90 and 91); \<open>None\<close> stands for an attribute that has not been
  assigned yet, which Python answers with \<^verbatim>\<open>AttributeError\<close>.
\<close>

record render_buffer =
  rb_class :: buffer_class
  rb_id :: nat
  rb_resizeable :: bool
  rb_shape :: "pyval option"
  rb_format :: "pyval option"

text \<open>The properties \<^verbatim>\<open>shape\<close> and \<^verbatim>\<open>format\<close> (lines 39 to 49).\<close>

definition RenderBuffer_shape :: "render_buffer \<Rightarrow> exn + pyval" where
  "RenderBuffer_shape self =
     (case rb_shape self of None \<Rightarrow> Inl AttributeError | Some s \<Rightarrow> Inr s)"

definition RenderBuffer_format :: "render_buffer \<Rightarrow> exn + pyval" where
  "RenderBuffer_format self =
     (case rb_format self of None \<Rightarrow> Inl AttributeError | Some f \<Rightarrow> Inr f)"

text \<open>
  The format check of \<^verbatim>\<open>resize\<close> (lines 73 to 87). \<^verbatim>\<open>None\<close> reads \<^verbatim>\<open>self._format\<close>;
  an \<^verbatim>\<open>int\<close> (a \<^verbatim>\<open>bool\<close> is one) passes unchecked; a string is looked up in the
  dictionary of the three names; any other value falls through all branches unchanged.
\<close>

fun check_format :: "gl_module \<Rightarrow> render_buffer \<Rightarrow> pyval \<Rightarrow> exn + pyval" where
  "check_format gl self PyNone =
     (case rb_format self of
        None \<Rightarrow> Inl AttributeError
      | Some PyNone \<Rightarrow> Inl ValueError
      | Some f \<Rightarrow> Inr f)"
| "check_format gl self (PyInt i) = Inr (PyInt i)"
| "check_format gl self (PyBool b) = Inr (PyBool b)"
| "check_format gl self (PyStr s) =
     (if s = ''color'' then Inr (PyInt (GL_RGBA gl))
      else if s = ''depth'' then Inr (PyInt (GL_DEPTH_COMPONENT16 gl))
      else if s = ''stencil'' then Inr (PyInt (GL_STENCIL_INDEX8 gl))
      else Inl ValueError)"
| "check_format gl self format = Inr format"

text \<open>
  \<^verbatim>\<open>RenderBuffer.resize\<close> (lines 51 to 92) on the object and the command queue of its
  context. The result is the exception raised, if any, with the object and the queue
  as the call leaves them.
\<close>

definition RenderBuffer_resize ::
  "gl_module \<Rightarrow> render_buffer \<Rightarrow> pyval \<Rightarrow> pyval \<Rightarrow> command list
     \<Rightarrow> exn option \<times> render_buffer \<times> command list" where
  "RenderBuffer_resize gl self shape format q =
     (if \<not> rb_resizeable self then (Some RuntimeError, self, q)
      else if \<not> shape_ok shape then (Some ValueError, self, q)
      else case check_format gl self format of
             Inl e \<Rightarrow> (Some e, self, q)
           | Inr fmt \<Rightarrow>
               (let self1 = self\<lparr>rb_shape := Some shape\<rparr>;
                    self2 = self1\<lparr>rb_format := Some fmt\<rparr>
                in (None, self2, q @ [SIZE (rb_id self2) shape fmt])))"

section \<open>Objects, the context and GLObject\<close>

text \<open>
  \<^verbatim>\<open>Texture2D\<close> (\<^verbatim>\<open>gloo/texture.py\<close>) is not part of the sources. A texture is an
  object whose state has an arbitrary type \<open>'t\<close>; the four members the frame buffer uses
  (\<^verbatim>\<open>id\<close>, \<^verbatim>\<open>shape\<close>, \<^verbatim>\<open>_shape\<close>, \<^verbatim>\<open>resize\<close>) are parameters. \<open>tex_resize\<close> gets the
  texture, the shape and the command queue, and answers like \<open>RenderBuffer_resize\<close>.
\<close>

record 't texture_api =
  tex_id :: "'t \<Rightarrow> nat"
  tex_shape :: "'t \<Rightarrow> exn + pyval"
  tex_private_shape :: "'t \<Rightarrow> exn + pyval"
  tex_resize :: "'t \<Rightarrow> pyval \<Rightarrow> command list \<Rightarrow> exn option \<times> 't \<times> command list"

text \<open>
  An object of the store: a render buffer, a texture, or an instance of any other
  class (of which only its not being a buffer or a texture matters).
\<close>

datatype 't gl_object = RenderBufferObj render_buffer | Texture2DObj 't | OtherObj

text \<open>
  The store of objects, the id counter of \<^verbatim>\<open>GLObject\<close> and the command queue
  \<^verbatim>\<open>context.glir\<close>. Objects are mutable and shared: a buffer attached to a frame buffer
  is the object its creator holds, so a resize through either is seen by both.
\<close>

record 't world =
  objects :: "nat \<Rightarrow> 't gl_object option"
  idcount :: nat
  glir :: "command list"

text \<open>
  Modelled from the spec: \<^verbatim>\<open>GLObject.__init__\<close> (\<^verbatim>\<open>gloo/globject.py\<close>, not part of the
  sources). "\<^verbatim>\<open>allocate() -> LogicalId\<close> returns a fresh, never-before-issued id"; "a
  GPUObject is created (emits CREATE) when constructed", the payload being the kind
  tag. The ids are the successive values of a counter, and the object is stored under
  its id.
\<close>

definition GLObject_init :: "string \<Rightarrow> 't world \<Rightarrow> nat \<times> 't world" where
  "GLObject_init glir_type w =
     (let i = idcount w + 1
      in (i, w\<lparr>idcount := i, glir := glir w @ [CREATE i glir_type]\<rparr>))"

text \<open>
  \<^verbatim>\<open>RenderBuffer.__init__\<close> (lines 34 to 37), run for an object of class \<open>cls\<close>: the three
  subclasses call it on their own instances. The arguments are the values the caller
  passes or the defaults \<^verbatim>\<open>shape=None, format=None, resizeable=True\<close>. An object whose
  constructor raises is never bound, so it enters the store only on success.
\<close>

definition RenderBuffer_init ::
  "gl_module \<Rightarrow> buffer_class \<Rightarrow> pyval \<Rightarrow> pyval \<Rightarrow> pyval \<Rightarrow> 't world
     \<Rightarrow> (exn + nat) \<times> 't world" where
  "RenderBuffer_init gl cls shape format resizeable w =
     (case GLObject_init ''RenderBuffer'' w of
        (i, w1) \<Rightarrow>
          (let self = \<lparr>rb_class = cls, rb_id = i, rb_resizeable = py_bool resizeable,
                       rb_shape = None, rb_format = None\<rparr>
           in case RenderBuffer_resize gl self shape format (glir w1) of
                (Some e, self', q) \<Rightarrow> (Inl e, w1\<lparr>glir := q\<rparr>)
              | (None, self', q) \<Rightarrow>
                  (Inr i, w1\<lparr>objects := (objects w1)(i \<mapsto> RenderBufferObj self'),
                             glir := q\<rparr>)))"

text \<open>
  \<^verbatim>\<open>ColorBuffer(shape, format=gl.GL_RGBA, resizeable=True)\<close> and its two siblings (lines
  122 to 188); the deprecation warning goes to the logger, which is not modelled.
\<close>

definition ColorBuffer_init ::
  "gl_module \<Rightarrow> pyval \<Rightarrow> pyval \<Rightarrow> pyval \<Rightarrow> 't world \<Rightarrow> (exn + nat) \<times> 't world" where
  "ColorBuffer_init gl shape format resizeable w =
     RenderBuffer_init gl ColorBuffer shape format resizeable w"

definition DepthBuffer_init ::
  "gl_module \<Rightarrow> pyval \<Rightarrow> pyval \<Rightarrow> pyval \<Rightarrow> 't world \<Rightarrow> (exn + nat) \<times> 't world" where
  "DepthBuffer_init gl shape format resizeable w =
     RenderBuffer_init gl DepthBuffer shape format resizeable w"

definition StencilBuffer_init ::
  "gl_module \<Rightarrow> pyval \<Rightarrow> pyval \<Rightarrow> pyval \<Rightarrow> 't world \<Rightarrow> (exn + nat) \<times> 't world" where
  "StencilBuffer_init gl shape format resizeable w =
     RenderBuffer_init gl StencilBuffer shape format resizeable w"

section \<open>What a frame buffer asks of a buffer\<close>

text \<open>\<^verbatim>\<open>isinstance(x, C)\<close> for a render buffer class \<open>C\<close>, and for \<^verbatim>\<open>Texture2D\<close>.\<close>

fun is_subclass :: "buffer_class \<Rightarrow> buffer_class \<Rightarrow> bool" where
  "is_subclass c RenderBuffer = True"
| "is_subclass c d = (c = d)"

fun isinstance_rb :: "'t world \<Rightarrow> pyval \<Rightarrow> buffer_class \<Rightarrow> bool" where
  "isinstance_rb w (PyRef a) c =
     (case objects w a of
        Some (RenderBufferObj rb) \<Rightarrow> is_subclass (rb_class rb) c
      | _ \<Rightarrow> False)"
| "isinstance_rb w v c = False"

fun isinstance_Texture2D :: "'t world \<Rightarrow> pyval \<Rightarrow> bool" where
  "isinstance_Texture2D w (PyRef a) =
     (case objects w a of Some (Texture2DObj t) \<Rightarrow> True | _ \<Rightarrow> False)"
| "isinstance_Texture2D w v = False"

text \<open>
  Modelled from the spec: the \<^verbatim>\<open>id\<close> property of \<^verbatim>\<open>GLObject\<close> (not part of the
  sources), read as \<^verbatim>\<open>buffer.id\<close>: it answers the object's LogicalId, the \<^verbatim>\<open>_id\<close> given
  at construction.
\<close>

fun buffer_id :: "'t texture_api \<Rightarrow> 't world \<Rightarrow> pyval \<Rightarrow> exn + nat" where
  "buffer_id T w (PyRef a) =
     (case objects w a of
        Some (RenderBufferObj rb) \<Rightarrow> Inr (rb_id rb)
      | Some (Texture2DObj t) \<Rightarrow> Inr (tex_id T t)
      | _ \<Rightarrow> Inl AttributeError)"
| "buffer_id T w v = Inl AttributeError"

text \<open>\<^verbatim>\<open>buffer.shape\<close> and \<^verbatim>\<open>buffer._shape\<close>, dispatched on the object.\<close>

fun buffer_shape :: "'t texture_api \<Rightarrow> 't world \<Rightarrow> pyval \<Rightarrow> exn + pyval" where
  "buffer_shape T w (PyRef a) =
     (case objects w a of
        Some (RenderBufferObj rb) \<Rightarrow> RenderBuffer_shape rb
      | Some (Texture2DObj t) \<Rightarrow> tex_shape T t
      | _ \<Rightarrow> Inl AttributeError)"
| "buffer_shape T w v = Inl AttributeError"

fun buffer_private_shape :: "'t texture_api \<Rightarrow> 't world \<Rightarrow> pyval \<Rightarrow> exn + pyval" where
  "buffer_private_shape T w (PyRef a) =
     (case objects w a of
        Some (RenderBufferObj rb) \<Rightarrow>
          (case rb_shape rb of None \<Rightarrow> Inl AttributeError | Some s \<Rightarrow> Inr s)
      | Some (Texture2DObj t) \<Rightarrow> tex_private_shape T t
      | _ \<Rightarrow> Inl AttributeError)"
| "buffer_private_shape T w v = Inl AttributeError"

text \<open>
  \<^verbatim>\<open>buffer.resize(shape)\<close>, dispatched on the object: the format argument of
  \<^verbatim>\<open>RenderBuffer.resize\<close> takes its default \<^verbatim>\<open>None\<close>. The object is updated in the store.
\<close>

fun buffer_resize ::
  "gl_module \<Rightarrow> 't texture_api \<Rightarrow> pyval \<Rightarrow> pyval \<Rightarrow> 't world \<Rightarrow> exn option \<times> 't world" where
  "buffer_resize gl T (PyRef a) shape w =
     (case objects w a of
        Some (RenderBufferObj rb) \<Rightarrow>
          (case RenderBuffer_resize gl rb shape PyNone (glir w) of
             (e, rb', q) \<Rightarrow>
               (e, w\<lparr>objects := (objects w)(a \<mapsto> RenderBufferObj rb'), glir := q\<rparr>))
      | Some (Texture2DObj t) \<Rightarrow>
          (case tex_resize T t shape (glir w) of
             (e, t', q) \<Rightarrow>
               (e, w\<lparr>objects := (objects w)(a \<mapsto> Texture2DObj t'), glir := q\<rparr>))
      | _ \<Rightarrow> (Some AttributeError, w))"
| "buffer_resize gl T v shape w = (Some AttributeError, w)"

section \<open>FrameBuffer\<close>

text \<open>
  The attributes of a frame buffer; each slot holds \<^verbatim>\<open>None\<close> or the buffer that was
  assigned. (\<^verbatim>\<open>_shape\<close> is set to \<^verbatim>\<open>None\<close> by the constructor and never read.)
\<close>

record frame_buffer =
  fb_id :: nat
  fb_resizeable :: bool
  fb_color_buffer :: pyval
  fb_depth_buffer :: pyval
  fb_stencil_buffer :: pyval

text \<open>
  The setters of \<^verbatim>\<open>color_buffer\<close>, \<^verbatim>\<open>depth_buffer\<close> and \<^verbatim>\<open>stencil_buffer\<close> (lines 239
  to 280). \<^verbatim>\<open>id = buffer.id if buffer else 0\<close> is evaluated after the slot is assigned.
\<close>

definition attach ::
  "'t texture_api \<Rightarrow> frame_buffer \<Rightarrow> int \<Rightarrow> pyval \<Rightarrow> 't world
     \<Rightarrow> exn option \<times> frame_buffer \<times> 't world" where
  "attach T self target buffer w =
     (case (if py_bool buffer then buffer_id T w buffer else Inr 0) of
        Inl e \<Rightarrow> (Some e, self, w)
      | Inr i \<Rightarrow> (None, self, w\<lparr>glir := glir w @ [ATTACH (fb_id self) target i]\<rparr>))"

definition set_color_buffer ::
  "gl_module \<Rightarrow> 't texture_api \<Rightarrow> frame_buffer \<Rightarrow> pyval \<Rightarrow> 't world
     \<Rightarrow> exn option \<times> frame_buffer \<times> 't world" where
  "set_color_buffer gl T self buffer w =
     (if isinstance_rb w buffer ColorBuffer \<or> isinstance_Texture2D w buffer
         \<or> buffer = PyNone
      then attach T (self\<lparr>fb_color_buffer := buffer\<rparr>) (GL_COLOR_ATTACHMENT0 gl) buffer w
      else (Some TypeError, self, w))"

definition set_depth_buffer ::
  "gl_module \<Rightarrow> 't texture_api \<Rightarrow> frame_buffer \<Rightarrow> pyval \<Rightarrow> 't world
     \<Rightarrow> exn option \<times> frame_buffer \<times> 't world" where
  "set_depth_buffer gl T self buffer w =
     (if isinstance_rb w buffer DepthBuffer \<or> isinstance_Texture2D w buffer
         \<or> buffer = PyNone
      then attach T (self\<lparr>fb_depth_buffer := buffer\<rparr>) (GL_DEPTH_ATTACHMENT gl) buffer w
      else (Some TypeError, self, w))"

definition set_stencil_buffer ::
  "gl_module \<Rightarrow> 't texture_api \<Rightarrow> frame_buffer \<Rightarrow> pyval \<Rightarrow> 't world
     \<Rightarrow> exn option \<times> frame_buffer \<times> 't world" where
  "set_stencil_buffer gl T self buffer w =
     (if isinstance_rb w buffer StencilBuffer \<or> buffer = PyNone
      then attach T (self\<lparr>fb_stencil_buffer := buffer\<rparr>) (GL_STENCIL_ATTACHMENT gl) buffer w
      else (Some TypeError, self, w))"

text \<open>
  \<^verbatim>\<open>FrameBuffer.__init__\<close> (lines 209 to 225): the slots start empty, and each
  argument that is not \<^verbatim>\<open>None\<close> goes through its setter.
\<close>

definition FrameBuffer_init ::
  "gl_module \<Rightarrow> 't texture_api \<Rightarrow> pyval \<Rightarrow> pyval \<Rightarrow> pyval \<Rightarrow> pyval \<Rightarrow> 't world
     \<Rightarrow> (exn + frame_buffer) \<times> 't world" where
  "FrameBuffer_init gl T color depth stencil resizeable w =
     (case GLObject_init ''FrameBuffer'' w of
        (i, w0) \<Rightarrow>
          (let self0 = \<lparr>fb_id = i, fb_resizeable = py_bool resizeable,
                        fb_color_buffer = PyNone, fb_depth_buffer = PyNone,
                        fb_stencil_buffer = PyNone\<rparr>
           in case (if color \<noteq> PyNone then set_color_buffer gl T self0 color w0
                    else (None, self0, w0)) of
                (Some e, self1, w1) \<Rightarrow> (Inl e, w1)
              | (None, self1, w1) \<Rightarrow>
                  (case (if depth \<noteq> PyNone then set_depth_buffer gl T self1 depth w1
                         else (None, self1, w1)) of
                     (Some e, self2, w2) \<Rightarrow> (Inl e, w2)
                   | (None, self2, w2) \<Rightarrow>
                       (case (if stencil \<noteq> PyNone
                              then set_stencil_buffer gl T self2 stencil w2
                              else (None, self2, w2)) of
                          (Some e, self3, w3) \<Rightarrow> (Inl e, w3)
                        | (None, self3, w3) \<Rightarrow> (Inr self3, w3)))))"

text \<open>The property \<^verbatim>\<open>FrameBuffer.shape\<close> (lines 282 to 292).\<close>

definition FrameBuffer_shape ::
  "'t texture_api \<Rightarrow> frame_buffer \<Rightarrow> 't world \<Rightarrow> exn + pyval" where
  "FrameBuffer_shape T self w =
     (if fb_color_buffer self \<noteq> PyNone then buffer_shape T w (fb_color_buffer self)
      else if fb_depth_buffer self \<noteq> PyNone then buffer_shape T w (fb_depth_buffer self)
      else if fb_stencil_buffer self \<noteq> PyNone then buffer_shape T w (fb_stencil_buffer self)
      else Inl RuntimeError)"

text \<open>
  Sequencing of statements that may raise: the second runs in the state the first
  leaves, unless the first raised.
\<close>

definition and_then ::
  "exn option \<times> 's \<Rightarrow> ('s \<Rightarrow> exn option \<times> 's) \<Rightarrow> exn option \<times> 's" where
  "and_then r f = (case r of (Some e, s) \<Rightarrow> (Some e, s) | (None, s) \<Rightarrow> f s)"

text \<open>\<^verbatim>\<open>if buffer is not None: buffer.resize(shape)\<close>\<close>

definition resize_attached ::
  "gl_module \<Rightarrow> 't texture_api \<Rightarrow> pyval \<Rightarrow> pyval \<Rightarrow> 't world \<Rightarrow> exn option \<times> 't world" where
  "resize_attached gl T buffer shape w =
     (if buffer \<noteq> PyNone then buffer_resize gl T buffer shape w else (None, w))"

text \<open>\<^verbatim>\<open>FrameBuffer.resize\<close> (lines 294 to 315).\<close>

definition FrameBuffer_resize ::
  "gl_module \<Rightarrow> 't texture_api \<Rightarrow> frame_buffer \<Rightarrow> pyval \<Rightarrow> 't world \<Rightarrow> exn option \<times> 't world" where
  "FrameBuffer_resize gl T self shape w =
     (if \<not> fb_resizeable self then (Some RuntimeError, w)
      else if \<not> shape_ok shape then (Some ValueError, w)
      else and_then
             (and_then (resize_attached gl T (fb_color_buffer self) shape w)
                       (resize_attached gl T (fb_depth_buffer self) shape))
             (resize_attached gl T (fb_stencil_buffer self) shape))"

text \<open>
  \<^verbatim>\<open>h, w = buffer._shape\<close>: a sequence of exactly two items unpacks, one of another
  length raises \<^verbatim>\<open>ValueError\<close>, a value that is not iterable raises \<^verbatim>\<open>TypeError\<close>.
\<close>

fun unpack2 :: "pyval \<Rightarrow> exn + pyval \<times> pyval" where
  "unpack2 (PyTuple [h, w]) = Inr (h, w)"
| "unpack2 (PyTuple xs) = Inl ValueError"
| "unpack2 (PyList [h, w]) = Inr (h, w)"
| "unpack2 (PyList xs) = Inl ValueError"
| "unpack2 (PyStr [c, d]) = Inr (PyStr [c], PyStr [d])"
| "unpack2 (PyStr s) = Inl ValueError"
| "unpack2 v = Inl TypeError"

text \<open>
  Modelled from the spec: \<^verbatim>\<open>_check_valid\<close> of \<^verbatim>\<open>gloo/wrappers.py\<close> (not part of the
  sources), called as \<^verbatim>\<open>_check_valid('mode', mode, ['color', 'depth', 'stencil'])\<close>:
  "Read-mode enumeration: color, depth, stencil", and validation errors are raised at
  the call. The answer is whether the value is accepted.
\<close>

definition check_valid :: "pyval \<Rightarrow> string list \<Rightarrow> bool" where
  "check_valid val valid = (case val of PyStr s \<Rightarrow> s \<in> set valid | _ \<Rightarrow> False)"

text \<open>
  Modelled from the spec: \<^verbatim>\<open>read_pixels\<close> of \<^verbatim>\<open>gloo/wrappers.py\<close> (not part of the
  sources), called with the viewport \<^verbatim>\<open>(0, 0, w, h)\<close>. Of the pixel array only its shape
  is modelled: "pixel array with shape (height, width, 3|4)", "3 channels (no alpha) or
  4 (alpha) depending on the flag".
\<close>

definition read_pixels :: "pyval \<times> pyval \<times> pyval \<times> pyval \<Rightarrow> bool \<Rightarrow> pyval \<times> pyval \<times> nat" where
  "read_pixels viewport alpha =
     (case viewport of (x, y, w, h) \<Rightarrow> (h, w, if alpha then 4 else 3))"

text \<open>
  \<^verbatim>\<open>getattr(self, mode + '_buffer')\<close> for a mode that passed the check.
\<close>

definition getattr_buffer :: "frame_buffer \<Rightarrow> pyval \<Rightarrow> pyval" where
  "getattr_buffer self mode =
     (if mode = PyStr ''color'' then fb_color_buffer self
      else if mode = PyStr ''depth'' then fb_depth_buffer self
      else fb_stencil_buffer self)"

text \<open>\<^verbatim>\<open>FrameBuffer.read\<close> (lines 317 to 342); the answer is the shape of the array.\<close>

definition FrameBuffer_read ::
  "'t texture_api \<Rightarrow> frame_buffer \<Rightarrow> pyval \<Rightarrow> bool \<Rightarrow> 't world \<Rightarrow> exn + pyval \<times> pyval \<times> nat" where
  "FrameBuffer_read T self mode alpha w =
     (if \<not> check_valid mode [''color'', ''depth'', ''stencil''] then Inl ValueError
      else case buffer_private_shape T w (getattr_buffer self mode) of
             Inl e \<Rightarrow> Inl e
           | Inr s \<Rightarrow>
               (case unpack2 s of
                  Inl e \<Rightarrow> Inl e
                | Inr (h, wd) \<Rightarrow> Inr (read_pixels (PyInt 0, PyInt 0, wd, h) alpha)))"

section \<open>Notions used in the statements\<close>

text \<open>Every render buffer of the store has its \<^verbatim>\<open>_resizeable\<close> flag set.\<close>

definition all_resizeable :: "'t world \<Rightarrow> bool" where
  "all_resizeable w =
     (\<forall>a rb. objects w a = Some (RenderBufferObj rb) \<longrightarrow> rb_resizeable rb)"





section \<open>Concrete values for the examples\<close>

text \<open>The values the constants have in OpenGL ES 2.0.\<close>

definition gl_es2 :: gl_module where
  "gl_es2 = \<lparr>GL_RGBA = 6408, GL_DEPTH_COMPONENT16 = 33189, GL_STENCIL_INDEX8 = 36168,
             GL_COLOR_ATTACHMENT0 = 36064, GL_DEPTH_ATTACHMENT = 36096,
             GL_STENCIL_ATTACHMENT = 36128\<rparr>"

text \<open>A texture interface for worlds that hold no texture, and the empty world.\<close>

definition no_textures :: "unit texture_api" where
  "no_textures = \<lparr>tex_id = (\<lambda>t. 0), tex_shape = (\<lambda>t. Inl AttributeError),
                  tex_private_shape = (\<lambda>t. Inl AttributeError),
                  tex_resize = (\<lambda>t shape q. (Some AttributeError, t, q))\<rparr>"

definition empty_world :: "unit world" where
  "empty_world = \<lparr>objects = (\<lambda>a. None), idcount = 0, glir = []\<rparr>"

text \<open>A resizeable colour buffer of 480 rows and 640 columns, format \<^verbatim>\<open>GL_RGBA\<close>.\<close>

definition rb_example :: render_buffer where
  "rb_example = \<lparr>rb_class = ColorBuffer, rb_id = 1, rb_resizeable = True,
                  rb_shape = Some (PyTuple [PyInt 480, PyInt 640]),
                  rb_format = Some (PyInt 6408)\<rparr>"

text \<open>A resizeable frame buffer with empty slots.\<close>

definition fb_empty :: frame_buffer where
  "fb_empty = \<lparr>fb_id = 9, fb_resizeable = True, fb_color_buffer = PyNone,
                fb_depth_buffer = PyNone, fb_stencil_buffer = PyNone\<rparr>"

text \<open>A render buffer object of a given class, id, flag, shape and format.\<close>

definition rb_of :: "buffer_class \<Rightarrow> nat \<Rightarrow> bool \<Rightarrow> pyval \<Rightarrow> int \<Rightarrow> unit gl_object" where
  "rb_of cls i r shape fmt =
     RenderBufferObj \<lparr>rb_class = cls, rb_id = i, rb_resizeable = r,
                      rb_shape = Some shape, rb_format = Some (PyInt fmt)\<rparr>"

text \<open>
  A store of six render buffers: a colour, a depth and a stencil buffer of different
  shapes (1, 2, 3), a plain \<^verbatim>\<open>RenderBuffer\<close> as \<^verbatim>\<open>RenderBuffer((480, 640), 'color')\<close>
  makes it (4), a colour buffer sized with a tuple of three items (5), and a stencil
  buffer whose flag was cleared (6).
\<close>

definition example_world :: "unit world" where
  "example_world =
     \<lparr>objects =
        [1 \<mapsto> rb_of ColorBuffer 1 True (PyTuple [PyInt 480, PyInt 640]) 6408,
         2 \<mapsto> rb_of DepthBuffer 2 True (PyTuple [PyInt 240, PyInt 320]) 33189,
         3 \<mapsto> rb_of StencilBuffer 3 True (PyTuple [PyInt 120, PyInt 160]) 36168,
         4 \<mapsto> rb_of RenderBuffer 4 True (PyTuple [PyInt 480, PyInt 640]) 6408,
         5 \<mapsto> rb_of ColorBuffer 5 True (PyTuple [PyInt 4, PyInt 5, PyInt 6]) 6408,
         6 \<mapsto> rb_of StencilBuffer 6 False (PyTuple [PyInt 120, PyInt 160]) 36168],
      idcount = 6, glir = []\<rparr>"

text \<open>A resizeable frame buffer with the given slots.\<close>

definition fb_with :: "pyval \<Rightarrow> pyval \<Rightarrow> pyval \<Rightarrow> frame_buffer" where
  "fb_with c d s = \<lparr>fb_id = 9, fb_resizeable = True, fb_color_buffer = c,
                    fb_depth_buffer = d, fb_stencil_buffer = s\<rparr>"

section \<open>RenderBuffer.resize\<close>

text \<open>What a call that returns has done, and that a call that raises has done nothing.\<close>

lemma resize_returns:
  "RenderBuffer_resize gl self shape format q = (None, self', q') \<Longrightarrow>
     rb_resizeable self \<and> shape_ok shape
     \<and> (\<exists>fmt. check_format gl self format = Inr fmt
            \<and> self' = self\<lparr>rb_shape := Some shape, rb_format := Some fmt\<rparr>
            \<and> q' = q @ [SIZE (rb_id self) shape fmt])"
  by (auto simp: RenderBuffer_resize_def Let_def split: if_splits sum.splits)

lemma resize_raises:
  "RenderBuffer_resize gl self shape format q = (Some e, self', q') \<Longrightarrow>
     self' = self \<and> q' = q"
  by (auto simp: RenderBuffer_resize_def Let_def split: if_splits sum.splits)

lemma resize_raises_iff:
  "(fst (RenderBuffer_resize gl self shape format q) \<noteq> None) =
     (\<not> rb_resizeable self \<or> \<not> shape_ok shape
      \<or> (\<exists>s. format = PyStr s \<and> s \<notin> {''color'', ''depth'', ''stencil''})
      \<or> (format = PyNone \<and> (rb_format self = None \<or> rb_format self = Some PyNone)))"
  by (cases "(gl, self, format)" rule: check_format.cases)
     (auto simp: RenderBuffer_resize_def Let_def
           split: if_splits sum.splits option.splits pyval.splits)

text \<open>
  C5. A render buffer whose \<^verbatim>\<open>_resizeable\<close> flag is false rejects every resize, whatever
  the shape and format arguments, with the \<^verbatim>\<open>RuntimeError\<close> of line 68
  (\<^verbatim>\<open>ImmutableResourceError\<close>); the object, its stored shape included, and the command
  queue are as before the call.
\<close>

theorem resize_not_resizeable:
  "\<not> rb_resizeable self \<Longrightarrow>
     RenderBuffer_resize gl self shape format q = (Some RuntimeError, self, q)"
  by (simp add: RenderBuffer_resize_def)

theorem resize_not_resizeable_witness:
  "\<not> rb_resizeable (rb_example\<lparr>rb_resizeable := False\<rparr>)
   \<and> RenderBuffer_resize gl_es2 (rb_example\<lparr>rb_resizeable := False\<rparr>)
        (PyTuple [PyInt 8, PyInt 9]) (PyStr ''depth'') []
      = (Some RuntimeError, rb_example\<lparr>rb_resizeable := False\<rparr>, [])
   \<and> rb_shape (rb_example\<lparr>rb_resizeable := False\<rparr>)
      = Some (PyTuple [PyInt 480, PyInt 640])"
  using resize_not_resizeable
    [of "rb_example\<lparr>rb_resizeable := False\<rparr>"
        gl_es2 "PyTuple [PyInt 8, PyInt 9]" "PyStr ''depth''" "[]"]
  by (simp add: rb_example_def)

text \<open>
  C10. \<^verbatim>\<open>resize\<close> raises exactly when the buffer is not resizeable, or the shape is not
  a tuple of two or three items, or the format is a string other than the three names,
  or the format is \<^verbatim>\<open>None\<close> and the object has none (the attribute was never
  assigned, or holds \<^verbatim>\<open>None\<close>). Whenever it raises, the object (stored shape and
  format) and the command queue are what they were: every check comes before the
  first assignment and before the \<^verbatim>\<open>SIZE\<close> command.
\<close>

theorem resize_failure_changes_nothing:
  "(fst (RenderBuffer_resize gl self shape format q) \<noteq> None) =
     (\<not> rb_resizeable self \<or> \<not> shape_ok shape
      \<or> (\<exists>s. format = PyStr s \<and> s \<notin> {''color'', ''depth'', ''stencil''})
      \<or> (format = PyNone \<and> (rb_format self = None \<or> rb_format self = Some PyNone)))
   \<and> (fst (RenderBuffer_resize gl self shape format q) \<noteq> None \<longrightarrow>
        snd (RenderBuffer_resize gl self shape format q) = (self, q))"
proof
  show "(fst (RenderBuffer_resize gl self shape format q) \<noteq> None) =
     (\<not> rb_resizeable self \<or> \<not> shape_ok shape
      \<or> (\<exists>s. format = PyStr s \<and> s \<notin> {''color'', ''depth'', ''stencil''})
      \<or> (format = PyNone \<and> (rb_format self = None \<or> rb_format self = Some PyNone)))"
    by (rule resize_raises_iff)
next
  show "fst (RenderBuffer_resize gl self shape format q) \<noteq> None \<longrightarrow>
        snd (RenderBuffer_resize gl self shape format q) = (self, q)"
  proof
    assume f: "fst (RenderBuffer_resize gl self shape format q) \<noteq> None"
    obtain e self' q' where r: "RenderBuffer_resize gl self shape format q = (e, self', q')"
      by (cases "RenderBuffer_resize gl self shape format q") auto
    with f obtain x where "e = Some x" by auto
    with r resize_raises [of gl self shape format q x self' q']
    show "snd (RenderBuffer_resize gl self shape format q) = (self, q)" by simp
  qed
qed

text \<open>
  The four ways of failing, each at a concrete call: a list for a shape, an unknown
  format name, no format given and \<^verbatim>\<open>None\<close> stored, a buffer that is not resizeable.
\<close>

theorem resize_failure_changes_nothing_witness:
  "snd (RenderBuffer_resize gl_es2 rb_example (PyList [PyInt 2, PyInt 2]) PyNone [])
     = (rb_example, [])
   \<and> snd (RenderBuffer_resize gl_es2 rb_example (PyTuple [PyInt 2, PyInt 2])
             (PyStr ''rgba'') [])
     = (rb_example, [])
   \<and> snd (RenderBuffer_resize gl_es2 (rb_example\<lparr>rb_format := Some PyNone\<rparr>)
             (PyTuple [PyInt 2, PyInt 2]) PyNone [])
     = (rb_example\<lparr>rb_format := Some PyNone\<rparr>, [])
   \<and> snd (RenderBuffer_resize gl_es2 (rb_example\<lparr>rb_resizeable := False\<rparr>)
             (PyTuple [PyInt 2, PyInt 2]) PyNone [])
     = (rb_example\<lparr>rb_resizeable := False\<rparr>, [])"
  using resize_failure_changes_nothing
          [of gl_es2 rb_example "PyList [PyInt 2, PyInt 2]" PyNone "[]"]
        resize_failure_changes_nothing
          [of gl_es2 rb_example "PyTuple [PyInt 2, PyInt 2]" "PyStr ''rgba''" "[]"]
        resize_failure_changes_nothing
          [of gl_es2 "rb_example\<lparr>rb_format := Some PyNone\<rparr>"
              "PyTuple [PyInt 2, PyInt 2]" PyNone "[]"]
        resize_failure_changes_nothing
          [of gl_es2 "rb_example\<lparr>rb_resizeable := False\<rparr>"
              "PyTuple [PyInt 2, PyInt 2]" PyNone "[]"]
  by (simp add: rb_example_def)

text \<open>
  A resize that returns has stored its shape argument as it came (line 90), so the
  \<^verbatim>\<open>shape\<close> property answers a tuple of three items after a resize to one.
\<close>

lemma resize_stores_shape_verbatim:
  "RenderBuffer_resize gl self shape format q = (None, self', q') \<Longrightarrow>
     RenderBuffer_shape self' = Inr shape"
  by (auto dest: resize_returns simp: RenderBuffer_shape_def)

text \<open>
  C3. The claim is that the \<^verbatim>\<open>shape\<close> property answers the two items \<^verbatim>\<open>(y, x)\<close> after
  a resize to a tuple of two or three. The code answers all three items: after
  \<^verbatim>\<open>resize((4, 5, 6), 'color')\<close> the shape is \<^verbatim>\<open>(4, 5, 6)\<close>, although the docstring of
  \<^verbatim>\<open>resize\<close> says that a render buffer is always 2D and that the last dimension of a
  3-element tuple is ignored.
\<close>

theorem resize_keeps_third_dimension:
  "RenderBuffer_shape
     (fst (snd (RenderBuffer_resize gl rb_example
                  (PyTuple [PyInt 4, PyInt 5, PyInt 6]) (PyStr ''color'') [])))
   = Inr (PyTuple [PyInt 4, PyInt 5, PyInt 6])"
  by (simp add: RenderBuffer_resize_def RenderBuffer_shape_def rb_example_def Let_def)


lemma resize_format_None_stored:
  "rb_resizeable self \<Longrightarrow> shape_ok shape \<Longrightarrow> rb_format self = Some PyNone \<Longrightarrow>
     RenderBuffer_resize gl self shape PyNone q = (Some ValueError, self, q)"
  by (simp add: RenderBuffer_resize_def)

lemma resize_format_never_assigned:
  "rb_resizeable self \<Longrightarrow> shape_ok shape \<Longrightarrow> rb_format self = None \<Longrightarrow>
     RenderBuffer_resize gl self shape PyNone q = (Some AttributeError, self, q)"
  by (simp add: RenderBuffer_resize_def)

text \<open>
  C6. The claim is that a resize without a format fails with \<^verbatim>\<open>MissingFormatError\<close>
  (the \<^verbatim>\<open>ValueError\<close> of line 76) when no format was ever set. The only call on an
  object that never had a format is the one the constructor makes, and there line 74
  reads \<^verbatim>\<open>self._format\<close> before anything assigned it: \<^verbatim>\<open>RenderBuffer((2, 2))\<close> raises
  \<^verbatim>\<open>AttributeError\<close>, and line 76 is out of reach.
\<close>

theorem init_without_format_AttributeError:
  "fst (RenderBuffer_init gl RenderBuffer (PyTuple [PyInt 2, PyInt 2]) PyNone (PyBool True)
          empty_world) = Inl AttributeError"
  by (simp add: RenderBuffer_init_def GLObject_init_def RenderBuffer_resize_def Let_def)

section \<open>The constructor and the resizeable flag\<close>

lemma resize_keeps_flag:
  "rb_resizeable (fst (snd (RenderBuffer_resize gl rb shape format q))) = rb_resizeable rb"
  by (simp add: RenderBuffer_resize_def Let_def split: sum.splits)

lemma init_not_resizeable:
  "\<not> py_bool resizeable \<Longrightarrow>
     fst (RenderBuffer_init gl cls shape format resizeable w) = Inl RuntimeError"
  by (simp add: RenderBuffer_init_def GLObject_init_def RenderBuffer_resize_def)

lemma init_returns:
  assumes "RenderBuffer_init gl cls shape format resizeable w = (Inr a, w')"
  shows "\<exists>rb. objects w' a = Some (RenderBufferObj rb) \<and> rb_resizeable rb
           \<and> rb_class rb = cls \<and> rb_shape rb = Some shape
           \<and> (\<forall>b. b \<noteq> a \<longrightarrow> objects w' b = objects w b)"
  using assms
  by (auto simp: RenderBuffer_init_def GLObject_init_def Let_def
           split: prod.splits option.splits dest!: resize_returns)

lemma init_raises:
  assumes "RenderBuffer_init gl cls shape format resizeable w = (Inl e, w')"
  shows "objects w' = objects w"
  using assms
  by (auto simp: RenderBuffer_init_def GLObject_init_def Let_def
           split: prod.splits option.splits)

lemma init_all_resizeable:
  assumes "all_resizeable w"
  shows "all_resizeable (snd (RenderBuffer_init gl cls shape format resizeable w))"
proof (cases "RenderBuffer_init gl cls shape format resizeable w")
  case (Pair r w')
  show ?thesis
  proof (cases r)
    case (Inl e)
    with Pair assms init_raises [of gl cls shape format resizeable w e w']
    show ?thesis by (simp add: all_resizeable_def)
  next
    case (Inr a)
    with Pair init_returns [of gl cls shape format resizeable w a w']
    obtain rb where rb: "objects w' a = Some (RenderBufferObj rb)" "rb_resizeable rb"
      and others: "\<forall>b. b \<noteq> a \<longrightarrow> objects w' b = objects w b" by auto
    have "rb_resizeable x" if "objects w' b = Some (RenderBufferObj x)" for b x
    proof (cases "b = a")
      case True with that rb show ?thesis by simp
    next
      case False with that others assms show ?thesis by (auto simp: all_resizeable_def)
    qed
    with Pair show ?thesis by (auto simp: all_resizeable_def)
  qed
qed

lemma buffer_resize_all_resizeable:
  assumes "all_resizeable w"
  shows "all_resizeable (snd (buffer_resize gl T b shape w))"
proof (cases b)
  case (PyRef a)
  show ?thesis
  proof (cases "objects w a")
    case None with PyRef assms show ?thesis by simp
  next
    case (Some obj)
    show ?thesis
    proof (cases obj)
      case (RenderBufferObj rb)
      with Some assms have "rb_resizeable rb" by (auto simp: all_resizeable_def)
      then have "rb_resizeable (fst (snd (RenderBuffer_resize gl rb shape PyNone (glir w))))"
        by (simp add: resize_keeps_flag)
      with PyRef Some RenderBufferObj assms show ?thesis
        by (auto simp: all_resizeable_def split: prod.splits)
    next
      case (Texture2DObj t)
      with PyRef Some assms show ?thesis
        by (auto simp: all_resizeable_def split: prod.splits)
    next
      case OtherObj
      with PyRef Some assms show ?thesis by simp
    qed
  qed
qed (use assms in simp_all)

lemma resize_attached_all_resizeable:
  "all_resizeable w \<Longrightarrow> all_resizeable (snd (resize_attached gl T b shape w))"
  by (simp add: resize_attached_def buffer_resize_all_resizeable)

lemma and_then_snd:
  assumes "P (snd r)" and "\<And>s. P s \<Longrightarrow> P (snd (f s))"
  shows "P (snd (and_then r f))"
  using assms by (cases r) (auto simp: and_then_def split: option.splits)

lemma FrameBuffer_resize_all_resizeable:
  assumes "all_resizeable w"
  shows "all_resizeable (snd (FrameBuffer_resize gl T fb shape w))"
  unfolding FrameBuffer_resize_def using assms
  by (auto intro!: and_then_snd resize_attached_all_resizeable)

lemma attach_objects: "objects (snd (snd (attach T fb target b w))) = objects w"
  by (simp add: attach_def split: sum.splits)

lemma setters_objects:
  "objects (snd (snd (set_color_buffer gl T fb b w))) = objects w"
  "objects (snd (snd (set_depth_buffer gl T fb b w))) = objects w"
  "objects (snd (snd (set_stencil_buffer gl T fb b w))) = objects w"
  by (simp_all add: set_color_buffer_def set_depth_buffer_def set_stencil_buffer_def
        attach_objects)

text \<open>
  C9. The constructor stores \<^verbatim>\<open>bool(resizeable)\<close> and then sizes the buffer through
  \<^verbatim>\<open>resize\<close>, whose first check rejects a buffer that is not resizeable: whatever the
  shape and the format, constructing with a false \<^verbatim>\<open>resizeable\<close> raises the
  \<^verbatim>\<open>RuntimeError\<close> of line 68. So a render buffer that was constructed has the flag
  set. No operation of the module clears it: \<^verbatim>\<open>resize\<close> leaves the flag as it is,
  the constructor and \<^verbatim>\<open>FrameBuffer.resize\<close> keep every render buffer of the store
  resizeable, and the three setters do not touch the objects.
\<close>

theorem RenderBuffer_always_resizeable:
  "(\<not> py_bool resizeable \<longrightarrow>
      fst (RenderBuffer_init gl cls shape format resizeable w) = Inl RuntimeError)
   \<and> (\<forall>a w'. RenderBuffer_init gl cls shape format resizeable w = (Inr a, w') \<longrightarrow>
         (\<exists>rb. objects w' a = Some (RenderBufferObj rb) \<and> rb_resizeable rb))
   \<and> (all_resizeable w \<longrightarrow>
         all_resizeable (snd (RenderBuffer_init gl cls shape format resizeable w)))
   \<and> rb_resizeable (fst (snd (RenderBuffer_resize gl rb shape' format' q))) = rb_resizeable rb
   \<and> (all_resizeable w \<longrightarrow> all_resizeable (snd (FrameBuffer_resize gl T fb shape' w)))
   \<and> objects (snd (snd (set_color_buffer gl T fb b w))) = objects w
   \<and> objects (snd (snd (set_depth_buffer gl T fb b w))) = objects w
   \<and> objects (snd (snd (set_stencil_buffer gl T fb b w))) = objects w"
  using init_returns [of gl cls shape format resizeable w]
  by (simp add: init_not_resizeable init_all_resizeable resize_keeps_flag
        FrameBuffer_resize_all_resizeable setters_objects) blast

theorem RenderBuffer_always_resizeable_witness:
  "\<not> py_bool (PyBool False)
   \<and> fst (RenderBuffer_init gl_es2 RenderBuffer (PyTuple [PyInt 480, PyInt 640])
            (PyStr ''color'') (PyBool False) empty_world) = Inl RuntimeError
   \<and> all_resizeable empty_world
   \<and> all_resizeable
        (snd (RenderBuffer_init gl_es2 RenderBuffer (PyTuple [PyInt 480, PyInt 640])
                (PyStr ''color'') (PyBool False) empty_world))
   \<and> all_resizeable
        (snd (FrameBuffer_resize gl_es2 no_textures fb_empty (PyTuple [PyInt 2, PyInt 3])
                empty_world))"
proof -
  have e: "all_resizeable empty_world"
    by (simp add: all_resizeable_def empty_world_def)
  show ?thesis
    using e RenderBuffer_always_resizeable
            [of "PyBool False" gl_es2 RenderBuffer "PyTuple [PyInt 480, PyInt 640]"
                "PyStr ''color''" empty_world rb_example "PyTuple [PyInt 2, PyInt 3]"
                PyNone "[]" no_textures fb_empty PyNone]
    by simp
qed

section \<open>FrameBuffer.shape\<close>

text \<open>
  C4. \<^verbatim>\<open>FrameBuffer.shape\<close> answers the shape of the colour attachment when there is
  one, else that of the depth attachment, else that of the stencil attachment, and
  raises the \<^verbatim>\<open>RuntimeError\<close> of line 292 (\<^verbatim>\<open>UndefinedShapeError\<close>) when the three
  slots are empty.
\<close>

theorem FrameBuffer_shape_priority:
  "(fb_color_buffer self \<noteq> PyNone \<longrightarrow>
      FrameBuffer_shape T self w = buffer_shape T w (fb_color_buffer self))
   \<and> (fb_color_buffer self = PyNone \<and> fb_depth_buffer self \<noteq> PyNone \<longrightarrow>
      FrameBuffer_shape T self w = buffer_shape T w (fb_depth_buffer self))
   \<and> (fb_color_buffer self = PyNone \<and> fb_depth_buffer self = PyNone
        \<and> fb_stencil_buffer self \<noteq> PyNone \<longrightarrow>
      FrameBuffer_shape T self w = buffer_shape T w (fb_stencil_buffer self))
   \<and> (fb_color_buffer self = PyNone \<and> fb_depth_buffer self = PyNone
        \<and> fb_stencil_buffer self = PyNone \<longrightarrow>
      FrameBuffer_shape T self w = Inl RuntimeError)"
  by (simp add: FrameBuffer_shape_def)

text \<open>The eight combinations of empty and attached slots, on buffers of three shapes.\<close>

theorem FrameBuffer_shape_priority_witness:
  "FrameBuffer_shape no_textures (fb_with (PyRef 1) (PyRef 2) (PyRef 3)) example_world
     = Inr (PyTuple [PyInt 480, PyInt 640])
   \<and> FrameBuffer_shape no_textures (fb_with (PyRef 1) (PyRef 2) PyNone) example_world
     = Inr (PyTuple [PyInt 480, PyInt 640])
   \<and> FrameBuffer_shape no_textures (fb_with (PyRef 1) PyNone (PyRef 3)) example_world
     = Inr (PyTuple [PyInt 480, PyInt 640])
   \<and> FrameBuffer_shape no_textures (fb_with (PyRef 1) PyNone PyNone) example_world
     = Inr (PyTuple [PyInt 480, PyInt 640])
   \<and> FrameBuffer_shape no_textures (fb_with PyNone (PyRef 2) (PyRef 3)) example_world
     = Inr (PyTuple [PyInt 240, PyInt 320])
   \<and> FrameBuffer_shape no_textures (fb_with PyNone (PyRef 2) PyNone) example_world
     = Inr (PyTuple [PyInt 240, PyInt 320])
   \<and> FrameBuffer_shape no_textures (fb_with PyNone PyNone (PyRef 3)) example_world
     = Inr (PyTuple [PyInt 120, PyInt 160])
   \<and> FrameBuffer_shape no_textures (fb_with PyNone PyNone PyNone) example_world
     = Inl RuntimeError"
  using FrameBuffer_shape_priority
          [of "fb_with (PyRef 1) (PyRef 2) (PyRef 3)" no_textures example_world]
        FrameBuffer_shape_priority
          [of "fb_with (PyRef 1) (PyRef 2) PyNone" no_textures example_world]
        FrameBuffer_shape_priority
          [of "fb_with (PyRef 1) PyNone (PyRef 3)" no_textures example_world]
        FrameBuffer_shape_priority
          [of "fb_with (PyRef 1) PyNone PyNone" no_textures example_world]
        FrameBuffer_shape_priority
          [of "fb_with PyNone (PyRef 2) (PyRef 3)" no_textures example_world]
        FrameBuffer_shape_priority
          [of "fb_with PyNone (PyRef 2) PyNone" no_textures example_world]
        FrameBuffer_shape_priority
          [of "fb_with PyNone PyNone (PyRef 3)" no_textures example_world]
        FrameBuffer_shape_priority
          [of "fb_with PyNone PyNone PyNone" no_textures example_world]
  by (simp add: fb_with_def example_world_def rb_of_def RenderBuffer_shape_def)

section \<open>The setters of the three slots\<close>

text \<open>
  What the setters do: the colour slot takes a \<^verbatim>\<open>ColorBuffer\<close> or a \<^verbatim>\<open>Texture2D\<close>, the
  depth slot a \<^verbatim>\<open>DepthBuffer\<close> or a \<^verbatim>\<open>Texture2D\<close>, the stencil slot a
  \<^verbatim>\<open>StencilBuffer\<close>; the slot is assigned and \<^verbatim>\<open>ATTACH\<close> carries the target of the
  slot and the id of the buffer. \<^verbatim>\<open>None\<close> empties the slot and sends the id 0. Any other
  value raises \<^verbatim>\<open>TypeError\<close> and changes nothing.
\<close>

lemma attach_buffer:
  "buffer_id T w b = Inr i \<Longrightarrow> py_bool b \<Longrightarrow>
     attach T self target b w
       = (None, self, w\<lparr>glir := glir w @ [ATTACH (fb_id self) target i]\<rparr>)"
  by (simp add: attach_def)

lemma attach_None:
  "attach T self target PyNone w
     = (None, self, w\<lparr>glir := glir w @ [ATTACH (fb_id self) target 0]\<rparr>)"
  by (simp add: attach_def)

lemma isinstance_rb_id:
  "isinstance_rb w b c \<Longrightarrow> \<exists>a rb. b = PyRef a \<and> objects w a = Some (RenderBufferObj rb)
      \<and> buffer_id T w b = Inr (rb_id rb) \<and> py_bool b"
  by (cases b) (auto split: option.splits gl_object.splits)

lemma isinstance_Texture2D_id:
  "isinstance_Texture2D w b \<Longrightarrow> \<exists>a t. b = PyRef a \<and> objects w a = Some (Texture2DObj t)
      \<and> buffer_id T w b = Inr (tex_id T t) \<and> py_bool b"
  by (cases b) (auto split: option.splits gl_object.splits)

lemma set_color_buffer_accepts:
  assumes "isinstance_rb w b ColorBuffer \<or> isinstance_Texture2D w b"
  shows "\<exists>i. buffer_id T w b = Inr i
           \<and> set_color_buffer gl T self b w
               = (None, self\<lparr>fb_color_buffer := b\<rparr>,
                  w\<lparr>glir := glir w @ [ATTACH (fb_id self) (GL_COLOR_ATTACHMENT0 gl) i]\<rparr>)"
  using assms isinstance_rb_id [of w b ColorBuffer T] isinstance_Texture2D_id [of w b T]
  by (auto simp: set_color_buffer_def attach_def)

lemma set_depth_buffer_accepts:
  assumes "isinstance_rb w b DepthBuffer \<or> isinstance_Texture2D w b"
  shows "\<exists>i. buffer_id T w b = Inr i
           \<and> set_depth_buffer gl T self b w
               = (None, self\<lparr>fb_depth_buffer := b\<rparr>,
                  w\<lparr>glir := glir w @ [ATTACH (fb_id self) (GL_DEPTH_ATTACHMENT gl) i]\<rparr>)"
  using assms isinstance_rb_id [of w b DepthBuffer T] isinstance_Texture2D_id [of w b T]
  by (auto simp: set_depth_buffer_def attach_def)

lemma set_stencil_buffer_accepts:
  assumes "isinstance_rb w b StencilBuffer"
  shows "\<exists>i. buffer_id T w b = Inr i
           \<and> set_stencil_buffer gl T self b w
               = (None, self\<lparr>fb_stencil_buffer := b\<rparr>,
                  w\<lparr>glir := glir w @ [ATTACH (fb_id self) (GL_STENCIL_ATTACHMENT gl) i]\<rparr>)"
  using assms isinstance_rb_id [of w b StencilBuffer T]
  by (auto simp: set_stencil_buffer_def attach_def)

lemma setters_detach:
  "set_color_buffer gl T self PyNone w
     = (None, self\<lparr>fb_color_buffer := PyNone\<rparr>,
        w\<lparr>glir := glir w @ [ATTACH (fb_id self) (GL_COLOR_ATTACHMENT0 gl) 0]\<rparr>)"
  "set_depth_buffer gl T self PyNone w
     = (None, self\<lparr>fb_depth_buffer := PyNone\<rparr>,
        w\<lparr>glir := glir w @ [ATTACH (fb_id self) (GL_DEPTH_ATTACHMENT gl) 0]\<rparr>)"
  "set_stencil_buffer gl T self PyNone w
     = (None, self\<lparr>fb_stencil_buffer := PyNone\<rparr>,
        w\<lparr>glir := glir w @ [ATTACH (fb_id self) (GL_STENCIL_ATTACHMENT gl) 0]\<rparr>)"
  by (simp_all add: set_color_buffer_def set_depth_buffer_def set_stencil_buffer_def attach_def)

lemma setters_reject:
  "\<not> isinstance_rb w b ColorBuffer \<Longrightarrow> \<not> isinstance_Texture2D w b \<Longrightarrow> b \<noteq> PyNone \<Longrightarrow>
     set_color_buffer gl T self b w = (Some TypeError, self, w)"
  "\<not> isinstance_rb w b DepthBuffer \<Longrightarrow> \<not> isinstance_Texture2D w b \<Longrightarrow> b \<noteq> PyNone \<Longrightarrow>
     set_depth_buffer gl T self b w = (Some TypeError, self, w)"
  "\<not> isinstance_rb w b StencilBuffer \<Longrightarrow> b \<noteq> PyNone \<Longrightarrow>
     set_stencil_buffer gl T self b w = (Some TypeError, self, w)"
  by (simp_all add: set_color_buffer_def set_depth_buffer_def set_stencil_buffer_def)

text \<open>
  C1. The claim is that the colour slot and the depth slot take every render buffer and
  every texture. The code tests for the deprecated subclasses: a plain
  \<^verbatim>\<open>RenderBuffer\<close>, the class the deprecation warnings and the docstring of
  \<^verbatim>\<open>FrameBuffer\<close> tell the caller to use, is refused by both slots with \<^verbatim>\<open>TypeError\<close>,
  and so is a \<^verbatim>\<open>ColorBuffer\<close> by the depth slot; the frame buffer and the command
  queue stay as they were.
\<close>

theorem color_slot_rejects_RenderBuffer:
  "isinstance_rb example_world (PyRef 4) RenderBuffer
   \<and> set_color_buffer gl no_textures fb_empty (PyRef 4) example_world
       = (Some TypeError, fb_empty, example_world)
   \<and> set_depth_buffer gl no_textures fb_empty (PyRef 4) example_world
       = (Some TypeError, fb_empty, example_world)
   \<and> set_depth_buffer gl no_textures fb_empty (PyRef 1) example_world
       = (Some TypeError, fb_empty, example_world)"
  by (simp add: set_color_buffer_def set_depth_buffer_def example_world_def rb_of_def)

text \<open>
  The scenario of the specification stops at its second step: the buffer that
  \<^verbatim>\<open>RenderBuffer((480, 640), 'color')\<close> makes cannot be given to a frame buffer as its
  colour buffer.
\<close>

lemma RenderBuffer_cannot_be_attached:
  "(case RenderBuffer_init gl RenderBuffer (PyTuple [PyInt 480, PyInt 640]) (PyStr ''color'')
           (PyBool True) empty_world of
      (Inr a, w) \<Rightarrow> fst (FrameBuffer_init gl no_textures (PyRef a) PyNone PyNone (PyBool True) w)
                     = Inl TypeError
    | (Inl e, w) \<Rightarrow> False)"
  by (simp add: RenderBuffer_init_def GLObject_init_def RenderBuffer_resize_def Let_def
       FrameBuffer_init_def set_color_buffer_def empty_world_def)

text \<open>
  The part of C2 that holds: a value that is no render buffer at all (and is not
  \<^verbatim>\<open>None\<close>) is refused by the stencil slot, and the call leaves the frame buffer, its
  stencil slot included, and the command queue as they were.
\<close>

lemma stencil_rejects_what_is_no_render_buffer:
  "\<not> isinstance_rb w b RenderBuffer \<Longrightarrow> b \<noteq> PyNone \<Longrightarrow>
     set_stencil_buffer gl T self b w = (Some TypeError, self, w)"
  by (cases b) (auto simp: set_stencil_buffer_def split: option.splits gl_object.splits)

text \<open>
  C2. The claim is that the stencil slot takes every render buffer. The code takes a
  \<^verbatim>\<open>StencilBuffer\<close> only: a plain \<^verbatim>\<open>RenderBuffer\<close> and a \<^verbatim>\<open>ColorBuffer\<close> are refused
  with \<^verbatim>\<open>TypeError\<close>.
\<close>

theorem stencil_slot_rejects_RenderBuffer:
  "isinstance_rb example_world (PyRef 4) RenderBuffer
   \<and> set_stencil_buffer gl no_textures fb_empty (PyRef 4) example_world
       = (Some TypeError, fb_empty, example_world)
   \<and> isinstance_rb example_world (PyRef 1) RenderBuffer
   \<and> set_stencil_buffer gl no_textures fb_empty (PyRef 1) example_world
       = (Some TypeError, fb_empty, example_world)"
  by (simp add: set_stencil_buffer_def example_world_def rb_of_def)

section \<open>FrameBuffer.read\<close>

text \<open>
  What \<^verbatim>\<open>read\<close> does: a mode outside the three names is refused; an empty slot raises
  \<^verbatim>\<open>AttributeError\<close>, at \<^verbatim>\<open>buffer._shape\<close> with \<^verbatim>\<open>buffer\<close> being \<^verbatim>\<open>None\<close>; a buffer whose
  stored shape is a pair \<^verbatim>\<open>(h, w)\<close> gives an array of shape \<^verbatim>\<open>(h, w, 4)\<close> with alpha and
  \<^verbatim>\<open>(h, w, 3)\<close> without.
\<close>

lemma read_bad_mode:
  "\<not> check_valid mode [''color'', ''depth'', ''stencil''] \<Longrightarrow>
     FrameBuffer_read T self mode alpha w = Inl ValueError"
  by (simp add: FrameBuffer_read_def)

lemma read_empty_slot:
  "check_valid mode [''color'', ''depth'', ''stencil''] \<Longrightarrow> getattr_buffer self mode = PyNone \<Longrightarrow>
     FrameBuffer_read T self mode alpha w = Inl AttributeError"
  by (simp add: FrameBuffer_read_def)

lemma read_pair_shape:
  "check_valid mode [''color'', ''depth'', ''stencil''] \<Longrightarrow>
   buffer_private_shape T w (getattr_buffer self mode) = Inr (PyTuple [h, wd]) \<Longrightarrow>
     FrameBuffer_read T self mode alpha w = Inr (h, wd, if alpha then 4 else 3)"
  by (simp add: FrameBuffer_read_def read_pixels_def)

text \<open>
  C8. The claim is that \<^verbatim>\<open>read\<close> on an attached buffer answers an array of shape
  \<^verbatim>\<open>(height, width, 3|4)\<close>. A render buffer sized with a tuple of three items, which
  \<^verbatim>\<open>resize\<close> accepts and stores whole, can be attached and then makes
  \<^verbatim>\<open>h, w = buffer._shape\<close> raise \<^verbatim>\<open>ValueError\<close>.
\<close>

theorem read_fails_on_three_item_shape:
  "set_color_buffer gl no_textures fb_empty (PyRef 5) example_world
     = (None, fb_with (PyRef 5) PyNone PyNone,
        example_world\<lparr>glir := [ATTACH 9 (GL_COLOR_ATTACHMENT0 gl) 5]\<rparr>)
   \<and> FrameBuffer_read no_textures (fb_with (PyRef 5) PyNone PyNone) (PyStr ''color'') True
        (example_world\<lparr>glir := [ATTACH 9 (GL_COLOR_ATTACHMENT0 gl) 5]\<rparr>)
     = Inl ValueError"
  by (simp add: set_color_buffer_def attach_def fb_empty_def fb_with_def example_world_def
        rb_of_def FrameBuffer_read_def check_valid_def getattr_buffer_def)

text \<open>
  The scenario of the specification with a \<^verbatim>\<open>ColorBuffer\<close> in the place of the
  \<^verbatim>\<open>RenderBuffer\<close>: create the buffer with shape \<^verbatim>\<open>(480, 640)\<close>, attach it as the colour
  buffer, resize the frame buffer to \<^verbatim>\<open>(240, 320)\<close>; the shape is then \<^verbatim>\<open>(240, 320)\<close>, a
  read with alpha gives an array of shape \<^verbatim>\<open>(240, 320, 4)\<close>, and the queue holds the
  five commands in the order of the calls.
\<close>

lemma scenario_with_ColorBuffer:
  "(case ColorBuffer_init gl_es2 (PyTuple [PyInt 480, PyInt 640]) (PyInt 6408) (PyBool True)
           empty_world of
      (Inl e, w) \<Rightarrow> False
    | (Inr a, w) \<Rightarrow>
        (case FrameBuffer_init gl_es2 no_textures (PyRef a) PyNone PyNone (PyBool True) w of
           (Inl e, w1) \<Rightarrow> False
         | (Inr fb, w1) \<Rightarrow>
             (case FrameBuffer_resize gl_es2 no_textures fb (PyTuple [PyInt 240, PyInt 320]) w1 of
                (Some e, w2) \<Rightarrow> False
              | (None, w2) \<Rightarrow>
                  FrameBuffer_shape no_textures fb w2 = Inr (PyTuple [PyInt 240, PyInt 320])
                  \<and> FrameBuffer_read no_textures fb (PyStr ''color'') True w2
                      = Inr (PyInt 240, PyInt 320, 4)
                  \<and> glir w2 = [CREATE 1 ''RenderBuffer'',
                                SIZE 1 (PyTuple [PyInt 480, PyInt 640]) (PyInt 6408),
                                CREATE 2 ''FrameBuffer'',
                                ATTACH 2 36064 1,
                                SIZE 1 (PyTuple [PyInt 240, PyInt 320]) (PyInt 6408)])))"
  by (simp add: ColorBuffer_init_def RenderBuffer_init_def GLObject_init_def
        RenderBuffer_resize_def Let_def FrameBuffer_init_def set_color_buffer_def attach_def
        empty_world_def gl_es2_def FrameBuffer_resize_def resize_attached_def and_then_def
        FrameBuffer_shape_def RenderBuffer_shape_def FrameBuffer_read_def check_valid_def
        getattr_buffer_def read_pixels_def)

section \<open>FrameBuffer.resize\<close>


















end
